theory Spec2Isabelle
  imports Complex_Main "HOL-Library.Word"
begin

section \<open>Python values, truthiness and exceptions\<close>

text \<open>
  The driver is Python 2 code (\<^verbatim>\<open>b'{0}'.format(...)\<close>, \<^verbatim>\<open>result += self.connection.read(1)\<close>
  on a \<^verbatim>\<open>str\<close>): strings are byte strings, modelled as \<^typ>\<open>string\<close>.

  Only three kinds of Python value are ever tested by an \<^verbatim>\<open>if\<close> of the driver: \<^verbatim>\<open>None\<close>,
  a boolean, and a bound method. A bound method has neither \<^verbatim>\<open>__nonzero__\<close> nor
  \<^verbatim>\<open>__len__\<close>, so it is true in a condition.
\<close>

datatype pyval = PyNone | PyBool bool | PyBoundMethod string

fun truthy :: "pyval \<Rightarrow> bool" where
  "truthy PyNone = False"
| "truthy (PyBool b) = b"
| "truthy (PyBoundMethod name) = True"

text \<open>
  The exceptions the driver can raise: \<^verbatim>\<open>raise Exception(msg)\<close>, the \<^verbatim>\<open>KeyError\<close> of a
  dictionary subscript with a missing key (it carries the key), the \<^verbatim>\<open>AttributeError\<close>
  of a method call on \<^verbatim>\<open>None\<close> (it carries the method's name), and the \<^verbatim>\<open>ValueError\<close> of
  \<^verbatim>\<open>float\<close> on a text that is no number (it carries the text).
\<close>

datatype py_error =
    PyException string
  | KeyError string
  | AttributeError string
  | ValueError string

abbreviation CRLF :: string where
  "CRLF \<equiv> [CHR 0x0D, CHR 0x0A]"

section \<open>The constant tables\<close>

text \<open>\<^verbatim>\<open>class NovaCommands\<close>\<close>

definition FORCE_POWER :: string where "FORCE_POWER = ''FP''"
definition FORCE_ENERGY :: string where "FORCE_ENERGY = ''FE''"
definition GET_VERSION :: string where "GET_VERSION = ''VE''"
definition GET_HEAD_INFO :: string where "GET_HEAD_INFO = ''HI''"
definition GET_INSTRUMENT_INFO :: string where "GET_INSTRUMENT_INFO = ''II''"
definition GET_UNIT :: string where "GET_UNIT = ''SI''"
definition GET_POWER :: string where "GET_POWER = ''SP 10''"
definition GET_ENERGY :: string where "GET_ENERGY = ''SE 10''"

text \<open>\<^verbatim>\<open>NovaUnits.UNIT_SETUP\<close> and \<^verbatim>\<open>Error.ERROR_MESSAGES\<close>: dictionaries with string keys.\<close>

definition UNIT_SETUP :: "string \<rightharpoonup> string" where
  "UNIT_SETUP = map_of
     [(''A'', ''Amps''), (''J'', ''Joules''), (''V'', ''Volts''), (''W'', ''Watts''),
      (''L'', ''Lux''), (''X'', ''No measurement yet''), (''Simulation'', ''Simulation'')]"

definition ERROR_MESSAGES :: "string \<rightharpoonup> string" where
  "ERROR_MESSAGES = map_of
     [(''?PARAM ERROR'', ''bad operand.''),
      (''?TIMEOUT: NO PULSE'', ''when the requested time period elapsed w/o pulse coming in''),
      (''?HEAD NOT MEASURING POWER'', ''head not measure power''),
      (''?NOT IN MAIN POWER SCREEN'', ''device is not in main screen''),
      (''?HEAD NOT CONNECTED'', ''head is not connected to device''),
      (''?UNKNOWN COMMAND'', ''unknown command'')]"

text \<open>The class attributes of \<^verbatim>\<open>NovaSerialDriver\<close>.\<close>

definition ERROR_CHAR :: char where "ERROR_CHAR = CHR ''?''"
definition COMMAND_CHAR :: char where "COMMAND_CHAR = CHR ''$''"
definition RESULT_CHAR :: char where "RESULT_CHAR = CHR ''*''"

section \<open>The serial port (pyserial), as far as the driver uses it\<close>

text \<open>
  The port object is outside the repository. The model keeps what the driver can observe:
  whether the port is open, the frames written so far (oldest first), the bytes received
  and not yet read, and the instrument at the other end as a function from the frame it is
  sent to the bytes it answers (a scripted transport). \<^verbatim>\<open>time.sleep(0.5)\<close> has no effect on
  these data: the answer is in the input buffer when the driver starts reading.
\<close>

record serial_port =
  is_open :: bool
  written :: "string list"
  in_buffer :: string
  reply :: "string \<Rightarrow> string"

definition serial_write :: "serial_port \<Rightarrow> string \<Rightarrow> serial_port" where
  "serial_write c frame =
     c\<lparr>written := written c @ [frame], in_buffer := in_buffer c @ reply c frame\<rparr>"

definition inWaiting :: "serial_port \<Rightarrow> nat" where
  "inWaiting c = length (in_buffer c)"

definition serial_read :: "serial_port \<Rightarrow> nat \<Rightarrow> string \<times> serial_port" where
  "serial_read c n = (take n (in_buffer c), c\<lparr>in_buffer := drop n (in_buffer c)\<rparr>)"

definition reset_input_buffer :: "serial_port \<Rightarrow> serial_port" where
  "reset_input_buffer c = c\<lparr>in_buffer := []\<rparr>"

definition serial_close :: "serial_port \<Rightarrow> serial_port" where
  "serial_close c = c\<lparr>is_open := False\<rparr>"

section \<open>The random number generator\<close>

text \<open>
  \<^verbatim>\<open>random.random()\<close> is the standard library's: it takes two 32-bit outputs of the
  Mersenne Twister, keeps the upper 27 bits of the first and the upper 26 bits of the
  second, and returns \<^verbatim>\<open>(a * 2^26 + b) / 2^53\<close>, a double that this rational is exactly.
  The two generator outputs are a parameter of the model.
\<close>

definition random_random :: "32 word \<times> 32 word \<Rightarrow> rat" where
  "random_random g =
     of_nat (unat (drop_bit 5 (fst g)) * 67108864 + unat (drop_bit 6 (snd g)))
       / 9007199254740992"

section \<open>The driver object\<close>

text \<open>
  The instance attributes that \<^verbatim>\<open>__init__\<close> assigns, with its spelling \<^verbatim>\<open>siumulation\<close>;
  the attribute \<^verbatim>\<open>simulation\<close>, which exists only once \<^verbatim>\<open>simulate_device\<close> has been called;
  and \<^verbatim>\<open>inst_simulate_device\<close>, the entry of the instance dictionary under the name
  \<^verbatim>\<open>simulate_device\<close>. No method of the class assigns that name, so the entry is absent
  in every object the class itself produces; it is present only when a caller has assigned
  \<^verbatim>\<open>driver.simulate_device = value\<close> from outside.
\<close>

record NovaSerialDriver =
  connection :: "serial_port option"
  com_port :: string
  baudrate :: int
  parity :: string
  cts_line :: bool
  dtr_rts_lines :: bool
  stop_bit :: int
  data_bits :: int
  siumulation :: bool
  simulation :: "pyval option"
  inst_simulate_device :: "pyval option"

text \<open>
  The expression \<^verbatim>\<open>self.simulate_device\<close>: the instance dictionary first, then the class,
  where the name is the method \<^verbatim>\<open>simulate_device\<close>, read as a bound method.
\<close>

definition self_simulate_device :: "NovaSerialDriver \<Rightarrow> pyval" where
  "self_simulate_device self =
     (case inst_simulate_device self of
        Some v \<Rightarrow> v
      | None \<Rightarrow> PyBoundMethod ''simulate_device'')"

text \<open>\<^verbatim>\<open>__init__(self, com_port='COM1', baudrate=9600)\<close>\<close>

definition init :: "string \<Rightarrow> int \<Rightarrow> NovaSerialDriver" where
  "init port baud =
     \<lparr>connection = None, com_port = port, baudrate = baud, parity = ''N'',
      cts_line = True, dtr_rts_lines = False, stop_bit = 1, data_bits = 8,
      siumulation = False, simulation = None, inst_simulate_device = None\<rparr>"

text \<open>\<^verbatim>\<open>simulate_device(self, simulation)\<close>\<close>

definition simulate_device :: "NovaSerialDriver \<Rightarrow> pyval \<Rightarrow> NovaSerialDriver" where
  "simulate_device self sim = self\<lparr>simulation := Some sim\<rparr>"

text \<open>
  \<^verbatim>\<open>__setup_connection\<close>: \<^verbatim>\<open>serial.Serial(port=self.com_port, ...)\<close> either yields a port
  object or raises, and every exception of the body is replaced by the driver's own. The
  ports of the machine are the parameter \<open>ports\<close>. Nothing is buffered for output in the
  model, so \<^verbatim>\<open>flush\<close> and \<^verbatim>\<open>reset_output_buffer\<close> leave the port as it is.
\<close>

definition setup_connection ::
  "(string \<Rightarrow> serial_port option) \<Rightarrow> NovaSerialDriver \<Rightarrow> (py_error + unit) \<times> NovaSerialDriver"
where
  "setup_connection ports self =
     (case ports (com_port self) of
        None \<Rightarrow> (Inl (PyException ''connection could not be established!''), self)
      | Some c \<Rightarrow> (Inr (), self\<lparr>connection := Some (reset_input_buffer c)\<rparr>))"

text \<open>\<^verbatim>\<open>open\<close> and \<^verbatim>\<open>close\<close>\<close>

definition nova_open ::
  "(string \<Rightarrow> serial_port option) \<Rightarrow> NovaSerialDriver \<Rightarrow> (py_error + unit) \<times> NovaSerialDriver"
where
  "nova_open ports self =
     (if \<not> truthy (self_simulate_device self) then setup_connection ports self
      else (Inr (), self))"

definition nova_close :: "NovaSerialDriver \<Rightarrow> (py_error + unit) \<times> NovaSerialDriver" where
  "nova_close self =
     (if \<not> truthy (self_simulate_device self) then
        (case connection self of
           None \<Rightarrow> (Inl (AttributeError ''close''), self)
         | Some c \<Rightarrow> (Inr (), self\<lparr>connection := Some (serial_close c)\<rparr>))
      else (Inr (), self))"

text \<open>\<^verbatim>\<open>__build_command_string\<close>: \<^verbatim>\<open>'{0}{1}\r\n'.format(self.COMMAND_CHAR, cmd)\<close>\<close>

definition build_command_string :: "string \<Rightarrow> string" where
  "build_command_string cmd = [COMMAND_CHAR] @ cmd @ CRLF"

text \<open>
  \<^verbatim>\<open>_extract_received_data\<close>. \<^verbatim>\<open>c in data\<close> with a one-character \<open>c\<close> is membership;
  \<^verbatim>\<open>data[1:]\<close> drops the first character (and is empty on the empty string).
\<close>

definition extract_received_data :: "string \<Rightarrow> py_error + string" where
  "extract_received_data data =
     (if RESULT_CHAR \<in> set data then Inr (drop 1 data)
      else if ERROR_CHAR \<in> set data then
        (case ERROR_MESSAGES data of
           Some message \<Rightarrow> Inr message
         | None \<Rightarrow> Inl (KeyError data))
      else Inl (PyException ''returned string has not the defined characters in it!''))"

text \<open>
  \<^verbatim>\<open>str.replace(old, new)\<close>: the occurrences of \<open>old\<close> are found from the left and do not
  overlap; the text put in is not searched again. With an empty \<open>old\<close>, \<open>new\<close> goes before
  every character and at the end.
\<close>

function py_replace :: "string \<Rightarrow> string \<Rightarrow> string \<Rightarrow> string" where
  "py_replace old new [] = (if old = [] then new else [])"
| "py_replace old new (c # cs) =
     (if old = [] then new @ c # py_replace old new cs
      else if take (length old) (c # cs) = old
        then new @ py_replace old new (drop (length old) (c # cs))
      else c # py_replace old new cs)"
  by pat_completeness auto
termination
  by (relation "measure (\<lambda>(old, new, s). length s)") (auto simp: Suc_le_eq)

text \<open>
  The loop of \<^verbatim>\<open>__send_receive_data\<close>:
  \<^verbatim>\<open>while(self.connection.inWaiting() > 0): result += self.connection.read(1)\<close>
\<close>

function drain :: "serial_port \<Rightarrow> string \<Rightarrow> string \<times> serial_port" where
  "drain c result =
     (if inWaiting c > 0
      then (case serial_read c 1 of (b, c') \<Rightarrow> drain c' (result @ b))
      else (result, c))"
  by pat_completeness auto
termination
  by (relation "measure (\<lambda>(c, result). length (in_buffer c))")
     (auto simp: inWaiting_def serial_read_def)

declare drain.simps [simp del]

text \<open>
  \<^verbatim>\<open>__send_receive_data\<close>. With no connection (\<^verbatim>\<open>self.connection\<close> is \<^verbatim>\<open>None\<close>) the call of
  \<^verbatim>\<open>write\<close> raises. The reply is classified as it was read, line end included, and the
  line ends are taken out of what the classification returns.
\<close>

definition send_receive_data ::
  "NovaSerialDriver \<Rightarrow> string \<Rightarrow> (py_error + string) \<times> NovaSerialDriver"
where
  "send_receive_data self cmd =
     (case connection self of
        None \<Rightarrow> (Inl (AttributeError ''write''), self)
      | Some c \<Rightarrow>
          (case drain (serial_write c (build_command_string cmd)) [] of
             (result, c') \<Rightarrow>
               (case extract_received_data result of
                  Inl e \<Rightarrow> (Inl e, self\<lparr>connection := Some c'\<rparr>)
                | Inr answer \<Rightarrow> (Inr (py_replace CRLF [] answer), self\<lparr>connection := Some c'\<rparr>))))"

text \<open>The four textual queries.\<close>

definition get_version :: "NovaSerialDriver \<Rightarrow> (py_error + string) \<times> NovaSerialDriver" where
  "get_version self =
     (if truthy (self_simulate_device self) then (Inr ''Simulation'', self)
      else send_receive_data self GET_VERSION)"

definition get_head_info :: "NovaSerialDriver \<Rightarrow> (py_error + string) \<times> NovaSerialDriver" where
  "get_head_info self =
     (if truthy (self_simulate_device self) then (Inr ''Simulation'', self)
      else send_receive_data self GET_HEAD_INFO)"

definition get_instrument_info ::
  "NovaSerialDriver \<Rightarrow> (py_error + string) \<times> NovaSerialDriver"
where
  "get_instrument_info self =
     (if truthy (self_simulate_device self) then (Inr ''Simulation'', self)
      else send_receive_data self GET_INSTRUMENT_INFO)"

definition get_unit :: "NovaSerialDriver \<Rightarrow> (py_error + string) \<times> NovaSerialDriver" where
  "get_unit self =
     (if truthy (self_simulate_device self) then (Inr ''Simulation'', self)
      else send_receive_data self GET_UNIT)"

text \<open>
  \<^verbatim>\<open>_format_numeric_value\<close> is \<^verbatim>\<open>float(value_string)\<close>. The builtin \<^verbatim>\<open>float\<close> is a parameter:
  a function from the text to the number it denotes, or to the error it raises.
\<close>

definition format_numeric_value ::
  "(string \<Rightarrow> py_error + rat) \<Rightarrow> string \<Rightarrow> py_error + rat"
where
  "format_numeric_value float value_string = float value_string"

text \<open>\<^verbatim>\<open>get_power\<close>; \<open>g\<close> is what the random number generator puts out if it is asked.\<close>

definition get_power ::
  "(string \<Rightarrow> py_error + rat) \<Rightarrow> 32 word \<times> 32 word \<Rightarrow> NovaSerialDriver
     \<Rightarrow> (py_error + rat) \<times> NovaSerialDriver"
where
  "get_power float g self =
     (if truthy (self_simulate_device self) then (Inr (random_random g), self)
      else
        (case send_receive_data self GET_POWER of
           (Inl e, self') \<Rightarrow> (Inl e, self')
         | (Inr answer, self') \<Rightarrow> (format_numeric_value float answer, self')))"

text \<open>
  \<^verbatim>\<open>get_infos\<close>: the four queries one after the other, each on the object the one before
  left; an exception of any of them, or of the subscript into \<^verbatim>\<open>UNIT_SETUP\<close>, ends the call
  and no dictionary is returned.
\<close>

definition get_infos ::
  "NovaSerialDriver \<Rightarrow> (py_error + (string \<rightharpoonup> string)) \<times> NovaSerialDriver"
where
  "get_infos self =
     (case get_version self of
        (Inl e, s1) \<Rightarrow> (Inl e, s1)
      | (Inr version, s1) \<Rightarrow>
     (case get_head_info s1 of
        (Inl e, s2) \<Rightarrow> (Inl e, s2)
      | (Inr head, s2) \<Rightarrow>
     (case get_instrument_info s2 of
        (Inl e, s3) \<Rightarrow> (Inl e, s3)
      | (Inr instrument, s3) \<Rightarrow>
     (case get_unit s3 of
        (Inl e, s4) \<Rightarrow> (Inl e, s4)
      | (Inr unit_code, s4) \<Rightarrow>
     (case UNIT_SETUP unit_code of
        None \<Rightarrow> (Inl (KeyError unit_code), s4)
      | Some unit_name \<Rightarrow>
          (Inr [''ROM Version'' \<mapsto> version, ''Head Info'' \<mapsto> head,
                ''Instrument Info'' \<mapsto> instrument, ''Unit'' \<mapsto> unit_name], s4))))))"

section \<open>Sessions and transports used to state the properties\<close>

text \<open>
  A driver object as the class produces it: the constructor, then any number of calls
  \<^verbatim>\<open>simulate_device(b)\<close> with booleans \<open>b\<close>.
\<close>

definition session :: "string \<Rightarrow> int \<Rightarrow> bool list \<Rightarrow> NovaSerialDriver" where
  "session port baud bs =
     foldl (\<lambda>self b. simulate_device self (PyBool b)) (init port baud) bs"

text \<open>
  A scripted transport: an open port, nothing written or received yet, with an instrument
  that answers a frame with \<open>answer frame\<close>.
\<close>

definition scripted_port :: "(string \<Rightarrow> string) \<Rightarrow> serial_port" where
  "scripted_port answer = \<lparr>is_open = True, written = [], in_buffer = [], reply = answer\<rparr>"

text \<open>An instrument that answers every frame with the same bytes.\<close>

definition answering :: "string \<Rightarrow> string \<Rightarrow> string" where
  "answering bytes frame = bytes"

text \<open>
  A driver that does talk to the instrument: the caller has assigned
  \<^verbatim>\<open>driver.simulate_device = False\<close> on a fresh object and called \<^verbatim>\<open>open()\<close> on a machine
  whose ports all lead to the scripted transport.
\<close>

definition device_session :: "(string \<Rightarrow> string) \<Rightarrow> NovaSerialDriver" where
  "device_session answer =
     snd (nova_open (\<lambda>name. Some (scripted_port answer))
            ((init ''COM1'' 9600)\<lparr>inst_simulate_device := Some (PyBool False)\<rparr>))"

text \<open>
  An instrument that answers the unit query with the result line of \<open>unit_code\<close> and every
  other frame with the result line \<open>NOVA\<close>.
\<close>

definition instrument :: "string \<Rightarrow> string \<Rightarrow> string" where
  "instrument unit_code frame =
     (if frame = build_command_string GET_UNIT then RESULT_CHAR # unit_code @ CRLF
      else RESULT_CHAR # ''NOVA'' @ CRLF)"

text \<open>Whether a text has a carriage return directly followed by a line feed in it.\<close>

fun has_crlf :: "string \<Rightarrow> bool" where
  "has_crlf (a # b # xs) = ((a = CHR 0x0D \<and> b = CHR 0x0A) \<or> has_crlf (b # xs))"
| "has_crlf xs = False"

section \<open>Facts about the transport, the generator and the sessions\<close>

lemmas NovaCommands_defs =
  FORCE_POWER_def FORCE_ENERGY_def GET_VERSION_def GET_HEAD_INFO_def
  GET_INSTRUMENT_INFO_def GET_UNIT_def GET_POWER_def GET_ENERGY_def

text \<open>The loop reads everything that is buffered, in order, and leaves the buffer empty.\<close>

lemma drain_eq: "drain c acc = (acc @ in_buffer c, c\<lparr>in_buffer := []\<rparr>)"
proof (induction c acc rule: drain.induct)
  case (1 c result)
  show ?case
  proof (cases "in_buffer c")
    case Nil
    then show ?thesis by (subst drain.simps) (simp add: inWaiting_def)
  next
    case (Cons b bs)
    have "drain c result = drain (c\<lparr>in_buffer := bs\<rparr>) (result @ [b])"
      using Cons by (subst drain.simps) (simp add: inWaiting_def serial_read_def)
    also have "\<dots> = ((result @ [b]) @ bs, c\<lparr>in_buffer := []\<rparr>)"
      using "1.IH"[of "[b]" "c\<lparr>in_buffer := bs\<rparr>"] Cons
      by (simp add: inWaiting_def serial_read_def)
    finally show ?thesis using Cons by simp
  qed
qed

text \<open>One exchange on an existing connection, with the loop resolved.\<close>

lemma send_receive_data_Some:
  assumes "connection self = Some c"
  shows "send_receive_data self cmd =
     (map_sum id (py_replace CRLF [])
        (extract_received_data (in_buffer c @ reply c (build_command_string cmd))),
      self\<lparr>connection :=
        Some (c\<lparr>written := written c @ [build_command_string cmd], in_buffer := []\<rparr>)\<rparr>)"
  using assms
  by (simp add: send_receive_data_def drain_eq serial_write_def split: sum.splits)

lemma py_replace_no_crlf: "\<not> has_crlf p \<Longrightarrow> py_replace CRLF [] (p @ CRLF) = p"
  by (induction p rule: has_crlf.induct) auto

lemma has_crlf_iff: "has_crlf p \<longleftrightarrow> (\<exists>xs ys. p = xs @ CRLF @ ys)"
proof (induction p rule: has_crlf.induct)
  case (1 a b xs)
  show ?case
  proof
    assume "has_crlf (a # b # xs)"
    then consider "a = CHR 0x0D \<and> b = CHR 0x0A" | "has_crlf (b # xs)" by auto
    then show "\<exists>ys zs. a # b # xs = ys @ CRLF @ zs"
    proof cases
      case 1
      then have "a # b # xs = [] @ CRLF @ xs" by simp
      then show ?thesis by blast
    next
      case 2
      then obtain ys zs where "b # xs = ys @ CRLF @ zs" using "1.IH" by blast
      then have "a # b # xs = (a # ys) @ CRLF @ zs" by simp
      then show ?thesis by blast
    qed
  next
    assume "\<exists>ys zs. a # b # xs = ys @ CRLF @ zs"
    then obtain ys zs where e: "a # b # xs = ys @ CRLF @ zs" by blast
    show "has_crlf (a # b # xs)"
    proof (cases ys)
      case Nil
      then show ?thesis using e by simp
    next
      case (Cons y ys')
      then have "b # xs = ys' @ CRLF @ zs" using e by simp
      then have "has_crlf (b # xs)" using "1.IH" by blast
      then show ?thesis by simp
    qed
  qed
qed (auto simp: append_eq_Cons_conv)

text \<open>The generator's value is a multiple of \<open>2 ^ - 53\<close> below one.\<close>

lemma unat_drop_bit_5: "unat (drop_bit 5 (w :: 32 word)) < 134217728"
proof -
  have "unat w < 4294967296" using unsigned_less [of w, where ?'a = nat] by simp
  moreover have "unat (drop_bit 5 w) = drop_bit 5 (unat w)"
    by (rule unat_drop_bit_eq)
  moreover have "drop_bit 5 (unat w) = unat w div 32"
    by (simp add: drop_bit_eq_div)
  ultimately show ?thesis by simp
qed

lemma unat_drop_bit_6: "unat (drop_bit 6 (w :: 32 word)) < 67108864"
proof -
  have "unat w < 4294967296" using unsigned_less [of w, where ?'a = nat] by simp
  moreover have "unat (drop_bit 6 w) = drop_bit 6 (unat w)"
    by (rule unat_drop_bit_eq)
  moreover have "drop_bit 6 (unat w) = unat w div 64"
    by (simp add: drop_bit_eq_div)
  ultimately show ?thesis by simp
qed

lemma random_random_range: "0 \<le> random_random g \<and> random_random g < 1"
proof -
  define n where "n = unat (drop_bit 5 (fst g)) * 67108864 + unat (drop_bit 6 (snd g))"
  have a: "unat (drop_bit 5 (fst g)) \<le> 134217727"
    using unat_drop_bit_5 [of "fst g"] by simp
  have b: "unat (drop_bit 6 (snd g)) < 67108864"
    by (rule unat_drop_bit_6)
  have "unat (drop_bit 5 (fst g)) * 67108864 \<le> 134217727 * 67108864"
    using a by (rule mult_le_mono1)
  then have "n < 9007199254740992"
    using b by (simp add: n_def)
  then have "(of_nat n :: rat) < of_nat 9007199254740992"
    by (simp only: of_nat_less_iff)
  then have "(of_nat n :: rat) < 9007199254740992" by simp
  moreover have "random_random g = of_nat n / 9007199254740992"
    by (simp only: random_random_def n_def)
  ultimately show ?thesis by simp
qed

text \<open>
  No call of \<^verbatim>\<open>simulate_device\<close> binds the name \<^verbatim>\<open>simulate_device\<close> in the instance, and none
  opens a connection.
\<close>

lemma session_inst: "inst_simulate_device (session port baud bs) = None"
  unfolding session_def
  by (induction bs rule: rev_induct) (simp_all add: init_def simulate_device_def)

lemma session_connection: "connection (session port baud bs) = None"
  unfolding session_def
  by (induction bs rule: rev_induct) (simp_all add: init_def simulate_device_def)

lemma session_guard:
  "self_simulate_device (session port baud bs) = PyBoundMethod ''simulate_device''"
  by (simp add: self_simulate_device_def session_inst)

lemma device_session_eq:
  "device_session answer =
     (init ''COM1'' 9600)\<lparr>connection := Some (scripted_port answer),
        inst_simulate_device := Some (PyBool False)\<rparr>"
  by (simp add: device_session_def nova_open_def self_simulate_device_def setup_connection_def
      reset_input_buffer_def scripted_port_def init_def)

lemma device_session_guard: "\<not> truthy (self_simulate_device (device_session answer))"
  by (simp add: device_session_eq self_simulate_device_def)

lemma device_session_connection:
  "connection (device_session answer) = Some (scripted_port answer)"
  by (simp add: device_session_eq)

lemma guard_connection_update [simp]:
  "self_simulate_device (self\<lparr>connection := x\<rparr>) = self_simulate_device self"
  by (simp add: self_simulate_device_def)

text \<open>One exchange that the instrument answers with a line holding the result marker.\<close>

lemma send_receive_data_result:
  assumes "connection self = Some c" and "in_buffer c = []"
    and "RESULT_CHAR \<in> set (reply c (build_command_string cmd))"
  shows "send_receive_data self cmd =
     (Inr (py_replace CRLF [] (drop 1 (reply c (build_command_string cmd)))),
      self\<lparr>connection :=
        Some (c\<lparr>written := written c @ [build_command_string cmd], in_buffer := []\<rparr>)\<rparr>)"
  using assms by (simp add: send_receive_data_Some extract_received_data_def)

text \<open>Every key of the error table has the error marker in it and no result marker.\<close>

lemma ERROR_MESSAGES_keys:
  assumes "ERROR_MESSAGES token = Some description"
  shows "ERROR_CHAR \<in> set token \<and> RESULT_CHAR \<notin> set token"
proof -
  have "(token, description) \<in> set
     [(''?PARAM ERROR'', ''bad operand.''),
      (''?TIMEOUT: NO PULSE'', ''when the requested time period elapsed w/o pulse coming in''),
      (''?HEAD NOT MEASURING POWER'', ''head not measure power''),
      (''?NOT IN MAIN POWER SCREEN'', ''device is not in main screen''),
      (''?HEAD NOT CONNECTED'', ''head is not connected to device''),
      (''?UNKNOWN COMMAND'', ''unknown command'')]"
    using assms unfolding ERROR_MESSAGES_def by (rule map_of_SomeD)
  then show ?thesis
    by (auto simp: ERROR_CHAR_def RESULT_CHAR_def)
qed

text \<open>
  The branch of \<^verbatim>\<open>get_power\<close> that talks to the instrument, on a driver that reaches it:
  the frame \<open>$SP 10\<close> is written, and the text handed to \<^verbatim>\<open>float\<close> is the answer without its
  marker and line end.
\<close>

lemma get_power_device_path:
  "get_power float g (device_session (answering (''*1.23E+01'' @ CRLF)))
     = (float ''1.23E+01'',
        (device_session (answering (''*1.23E+01'' @ CRLF)))
          \<lparr>connection := Some ((scripted_port (answering (''*1.23E+01'' @ CRLF)))
              \<lparr>written := [''$SP 10'' @ CRLF], in_buffer := []\<rparr>)\<rparr>)"
  by (simp add: get_power_def device_session_guard
      send_receive_data_Some [OF device_session_connection] scripted_port_def
      answering_def extract_received_data_def RESULT_CHAR_def format_numeric_value_def
      build_command_string_def COMMAND_CHAR_def GET_POWER_def)

section \<open>Command frames\<close>

text \<open>
  C4. The frame of a command is the character \<open>$\<close>, the mnemonic, carriage return and
  line feed, and nothing else; this holds for any text and in particular for each of the
  eight commands of \<^verbatim>\<open>NovaCommands\<close>. The encoder is a total function of its argument: it
  has no state and no failure.
\<close>

theorem build_command_string_frame:
  "build_command_string cmd = CHR ''$'' # cmd @ [CHR 0x0D, CHR 0x0A]
   \<and> map build_command_string
       [FORCE_POWER, FORCE_ENERGY, GET_VERSION, GET_HEAD_INFO,
        GET_INSTRUMENT_INFO, GET_UNIT, GET_POWER, GET_ENERGY]
     = [''$FP'' @ CRLF, ''$FE'' @ CRLF, ''$VE'' @ CRLF, ''$HI'' @ CRLF,
        ''$II'' @ CRLF, ''$SI'' @ CRLF, ''$SP 10'' @ CRLF, ''$SE 10'' @ CRLF]"
  by (simp add: build_command_string_def COMMAND_CHAR_def NovaCommands_defs)

section \<open>The simulation guard\<close>

text \<open>
  C2. Take the object the constructor builds and call \<^verbatim>\<open>simulate_device(b)\<close> on it any number
  of times with any booleans. The expression \<^verbatim>\<open>self.simulate_device\<close> that every guard tests
  is then still the bound method, whatever was passed, and it is true: the four textual
  queries return \<open>Simulation\<close>, \<^verbatim>\<open>get_power\<close> returns the generator's value, which lies in
  \<open>[0, 1)\<close>, and \<^verbatim>\<open>open\<close> and \<^verbatim>\<open>close\<close> return without touching a port (the object is
  unchanged and has no connection). The attributes \<^verbatim>\<open>simulation\<close> and \<^verbatim>\<open>siumulation\<close> occur in
  no guard.
\<close>

theorem simulation_branch_always_taken:
  "self_simulate_device (session port baud bs) = PyBoundMethod ''simulate_device''
   \<and> truthy (self_simulate_device (session port baud bs))
   \<and> get_version (session port baud bs) = (Inr ''Simulation'', session port baud bs)
   \<and> get_head_info (session port baud bs) = (Inr ''Simulation'', session port baud bs)
   \<and> get_instrument_info (session port baud bs) = (Inr ''Simulation'', session port baud bs)
   \<and> get_unit (session port baud bs) = (Inr ''Simulation'', session port baud bs)
   \<and> get_power float g (session port baud bs) = (Inr (random_random g), session port baud bs)
   \<and> 0 \<le> random_random g \<and> random_random g < 1
   \<and> nova_open ports (session port baud bs) = (Inr (), session port baud bs)
   \<and> nova_close (session port baud bs) = (Inr (), session port baud bs)
   \<and> connection (session port baud bs) = None"
  using random_random_range [of g]
  by (simp add: session_guard session_connection get_version_def get_head_info_def
      get_instrument_info_def get_unit_def get_power_def nova_open_def nova_close_def)

text \<open>
  C7. Whenever the guard is true (simulation is active), \<^verbatim>\<open>_get_version\<close> returns
  \<open>Simulation\<close>, \<^verbatim>\<open>get_power\<close> returns a value in \<open>[0, 1)\<close>, and \<^verbatim>\<open>open\<close> and \<^verbatim>\<open>close\<close> succeed
  and leave the object as it was, on any machine, also one where no port can be opened:
  no port is acquired or released.
\<close>

theorem simulation_active:
  assumes "truthy (self_simulate_device self)"
  shows "get_version self = (Inr ''Simulation'', self)
   \<and> (\<exists>r. get_power float g self = (Inr r, self) \<and> 0 \<le> r \<and> r < 1)
   \<and> nova_open ports self = (Inr (), self)
   \<and> nova_close self = (Inr (), self)"
  using assms random_random_range [of g]
  by (simp add: get_version_def get_power_def nova_open_def nova_close_def)

text \<open>
  The hypothesis holds after \<^verbatim>\<open>simulate_device(True)\<close> on a fresh object; the machine of
  this instance has no port that opens.
\<close>

theorem simulation_active_witness:
  "truthy (self_simulate_device (simulate_device (init ''COM1'' 9600) (PyBool True)))
   \<and> get_version (simulate_device (init ''COM1'' 9600) (PyBool True))
       = (Inr ''Simulation'', simulate_device (init ''COM1'' 9600) (PyBool True))
   \<and> (\<exists>r. get_power (\<lambda>s. Inr 0) (0x12345678, 0x9ABCDEF0)
            (simulate_device (init ''COM1'' 9600) (PyBool True))
          = (Inr r, simulate_device (init ''COM1'' 9600) (PyBool True)) \<and> 0 \<le> r \<and> r < 1)
   \<and> nova_open (\<lambda>name. None) (simulate_device (init ''COM1'' 9600) (PyBool True))
       = (Inr (), simulate_device (init ''COM1'' 9600) (PyBool True))
   \<and> nova_close (simulate_device (init ''COM1'' 9600) (PyBool True))
       = (Inr (), simulate_device (init ''COM1'' 9600) (PyBool True))"
proof -
  have h: "truthy (self_simulate_device (simulate_device (init ''COM1'' 9600) (PyBool True)))"
    by (simp add: self_simulate_device_def simulate_device_def init_def)
  show ?thesis
    using h simulation_active [OF h, of "\<lambda>s. Inr 0" "(0x12345678, 0x9ABCDEF0)" "\<lambda>name. None"]
    by blast
qed

text \<open>
  C1. The call \<^verbatim>\<open>simulate_device(False)\<close> does not switch the simulation off. On a fresh
  object after that call, on a machine whose port would answer the power query with
  \<open>*1.23E+01\<close> and a line end, \<^verbatim>\<open>open\<close> acquires nothing (the object still has no
  connection) and \<^verbatim>\<open>get_power\<close> returns the generator's value, which is below one and so is
  not 12.3. (\<open>get_power_device_path\<close> above shows what the other branch does with the same
  answer.)
\<close>

theorem get_power_ignores_simulate_device_False:
  "nova_open (\<lambda>name. Some (scripted_port (answering (''*1.23E+01'' @ CRLF))))
       (simulate_device (init ''COM1'' 9600) (PyBool False))
     = (Inr (), simulate_device (init ''COM1'' 9600) (PyBool False))
   \<and> connection (simulate_device (init ''COM1'' 9600) (PyBool False)) = None
   \<and> get_power float g (simulate_device (init ''COM1'' 9600) (PyBool False))
     = (Inr (random_random g), simulate_device (init ''COM1'' 9600) (PyBool False))
   \<and> fst (get_power float g (simulate_device (init ''COM1'' 9600) (PyBool False)))
     \<noteq> Inr (123 / 10)"
proof -
  let ?s = "simulate_device (init ''COM1'' 9600) (PyBool False)"
  have g: "truthy (self_simulate_device ?s)"
    by (simp add: self_simulate_device_def simulate_device_def init_def)
  have r: "random_random g < 1" using random_random_range by blast
  have p: "get_power float g ?s = (Inr (random_random g), ?s)"
    using g by (simp add: get_power_def)
  have "nova_open (\<lambda>name. Some (scripted_port (answering (''*1.23E+01'' @ CRLF)))) ?s
      = (Inr (), ?s)"
    using g by (simp add: nova_open_def)
  moreover have "connection ?s = None" by (simp add: simulate_device_def init_def)
  moreover have "fst (get_power float g ?s) \<noteq> Inr (123 / 10)"
    using r by (auto simp: p)
  ultimately show ?thesis using p by blast
qed

section \<open>Classifying a reply\<close>

text \<open>
  C6, as the code has it. A reply with the result marker anywhere in it is a result, and
  what is returned is the reply without its first character, whichever character that is.
  When the marker is the first character, that is the reply with the marker stripped.
\<close>

theorem extract_result_drops_first_character:
  "(RESULT_CHAR \<in> set data \<longrightarrow> extract_received_data data = Inr (drop 1 data))
   \<and> extract_received_data (RESULT_CHAR # rest) = Inr rest"
  by (simp add: extract_received_data_def)

theorem extract_result_drops_first_character_witness:
  "RESULT_CHAR \<in> set ''1*2'' \<and> extract_received_data ''1*2'' = Inr (drop 1 ''1*2'')
   \<and> extract_received_data (RESULT_CHAR # ''1.5'') = Inr ''1.5''"
proof -
  have h: "RESULT_CHAR \<in> set ''1*2''" by (simp add: RESULT_CHAR_def)
  show ?thesis
    using h extract_result_drops_first_character [of "''1*2''" "''1.5''"] by blast
qed

text \<open>
  C6 as stated fails where the marker is not the first character: of \<open>1*2\<close> the
  classification returns \<open>*2\<close>, with the marker still in it and the \<open>1\<close> gone, and not
  \<open>12\<close>.
\<close>

theorem extract_marker_inside_counterexample:
  "RESULT_CHAR \<in> set ''1*2'' \<and> extract_received_data ''1*2'' = Inr ''*2''
   \<and> extract_received_data ''1*2'' \<noteq> Inr ''12''"
  by (simp add: extract_received_data_def RESULT_CHAR_def)

text \<open>
  C9. A reply with neither marker in it is refused with the exception
  \<open>returned string has not the defined characters in it!\<close>: the classification returns no
  text at all, and an exchange on a connection that reads such a reply (whatever was
  buffered, then the answer) fails with the same exception.
\<close>

theorem extract_malformed:
  assumes "RESULT_CHAR \<notin> set data" and "ERROR_CHAR \<notin> set data"
  shows "extract_received_data data
           = Inl (PyException ''returned string has not the defined characters in it!'')
   \<and> (\<forall>payload. extract_received_data data \<noteq> Inr payload)
   \<and> (connection self = Some c \<and> in_buffer c @ reply c (build_command_string cmd) = data
        \<longrightarrow> fst (send_receive_data self cmd)
           = Inl (PyException ''returned string has not the defined characters in it!''))"
  using assms
  by (auto simp: extract_received_data_def send_receive_data_Some)

theorem extract_malformed_witness:
  "RESULT_CHAR \<notin> set ''1.5'' \<and> ERROR_CHAR \<notin> set ''1.5''
   \<and> extract_received_data ''1.5''
       = Inl (PyException ''returned string has not the defined characters in it!'')
   \<and> connection (device_session (answering ''1.5'')) = Some (scripted_port (answering ''1.5''))
   \<and> in_buffer (scripted_port (answering ''1.5''))
         @ reply (scripted_port (answering ''1.5'')) (build_command_string GET_POWER) = ''1.5''
   \<and> fst (send_receive_data (device_session (answering ''1.5'')) GET_POWER)
       = Inl (PyException ''returned string has not the defined characters in it!'')"
proof -
  have h1: "RESULT_CHAR \<notin> set ''1.5''" by (simp add: RESULT_CHAR_def)
  have h2: "ERROR_CHAR \<notin> set ''1.5''" by (simp add: ERROR_CHAR_def)
  have h3: "connection (device_session (answering ''1.5''))
      = Some (scripted_port (answering ''1.5''))"
    by (rule device_session_connection)
  have h4: "in_buffer (scripted_port (answering ''1.5''))
         @ reply (scripted_port (answering ''1.5'')) (build_command_string GET_POWER) = ''1.5''"
    by (simp add: scripted_port_def answering_def)
  show ?thesis
    using h1 h2 h3 h4
      extract_malformed [OF h1 h2, of "device_session (answering ''1.5'')"
        "scripted_port (answering ''1.5'')" GET_POWER]
    by blast
qed

text \<open>
  C10. For a reply with the error marker and no result marker: when the whole reply is a
  key of the error table, the classification yields the entry the table has for it; when
  it is no key, the classification fails with \<^verbatim>\<open>KeyError\<close> of the reply, which is not the
  exception of a malformed reply, and no other entry of the table is used instead.
\<close>

theorem extract_error_token:
  assumes "ERROR_CHAR \<in> set data" and "RESULT_CHAR \<notin> set data"
  shows "(ERROR_MESSAGES data = Some description
            \<longrightarrow> extract_received_data data = Inr description)
   \<and> (ERROR_MESSAGES data = None \<longrightarrow>
        extract_received_data data = Inl (KeyError data)
        \<and> KeyError data
            \<noteq> PyException ''returned string has not the defined characters in it!'')"
  using assms by (simp add: extract_received_data_def)

text \<open>
  Both cases occur: \<open>?UNKNOWN COMMAND\<close> is a key, and the same line with its line end is
  not.
\<close>

theorem extract_error_token_witness:
  "ERROR_CHAR \<in> set ''?UNKNOWN COMMAND'' \<and> RESULT_CHAR \<notin> set ''?UNKNOWN COMMAND''
   \<and> ERROR_MESSAGES ''?UNKNOWN COMMAND'' = Some ''unknown command''
   \<and> extract_received_data ''?UNKNOWN COMMAND'' = Inr ''unknown command''
   \<and> ERROR_CHAR \<in> set (''?UNKNOWN COMMAND'' @ CRLF)
   \<and> RESULT_CHAR \<notin> set (''?UNKNOWN COMMAND'' @ CRLF)
   \<and> ERROR_MESSAGES (''?UNKNOWN COMMAND'' @ CRLF) = None
   \<and> extract_received_data (''?UNKNOWN COMMAND'' @ CRLF)
       = Inl (KeyError (''?UNKNOWN COMMAND'' @ CRLF))"
proof -
  have a1: "ERROR_CHAR \<in> set ''?UNKNOWN COMMAND''" by (simp add: ERROR_CHAR_def)
  have a2: "RESULT_CHAR \<notin> set ''?UNKNOWN COMMAND''" by (simp add: RESULT_CHAR_def)
  have a3: "ERROR_MESSAGES ''?UNKNOWN COMMAND'' = Some ''unknown command''"
    by (simp add: ERROR_MESSAGES_def)
  have b1: "ERROR_CHAR \<in> set (''?UNKNOWN COMMAND'' @ CRLF)" by (simp add: ERROR_CHAR_def)
  have b2: "RESULT_CHAR \<notin> set (''?UNKNOWN COMMAND'' @ CRLF)" by (simp add: RESULT_CHAR_def)
  have b3: "ERROR_MESSAGES (''?UNKNOWN COMMAND'' @ CRLF) = None"
    by (simp add: ERROR_MESSAGES_def)
  have a: "extract_received_data ''?UNKNOWN COMMAND'' = Inr ''unknown command''"
    using extract_error_token [OF a1 a2, of "''unknown command''"] a3 by blast
  have b: "extract_received_data (''?UNKNOWN COMMAND'' @ CRLF)
       = Inl (KeyError (''?UNKNOWN COMMAND'' @ CRLF))"
    using extract_error_token [OF b1 b2] b3 by blast
  show ?thesis by (intro conjI a1 a2 a3 a b1 b2 b3 b)
qed

text \<open>
  C3, as the code has it. A reply that is exactly a key of the error table, such as
  \<open>?HEAD NOT CONNECTED\<close> with no line end, is classified to the table's description, and
  the description is the ordinary return value of the classification: nothing is raised,
  and the code has no failure type for an error the instrument reports.
\<close>

theorem known_error_token_returned_as_value:
  assumes "ERROR_MESSAGES token = Some description"
  shows "extract_received_data token = Inr description"
  using assms ERROR_MESSAGES_keys [OF assms]
  by (simp add: extract_received_data_def)

theorem known_error_token_returned_as_value_witness:
  "ERROR_MESSAGES ''?HEAD NOT CONNECTED'' = Some ''head is not connected to device''
   \<and> extract_received_data ''?HEAD NOT CONNECTED'' = Inr ''head is not connected to device''"
proof -
  have h: "ERROR_MESSAGES ''?HEAD NOT CONNECTED'' = Some ''head is not connected to device''"
    by (simp add: ERROR_MESSAGES_def)
  show ?thesis using h known_error_token_returned_as_value [OF h] by blast
qed

text \<open>
  C3 as stated fails. On a driver that talks to an instrument answering every frame with
  \<open>?HEAD NOT CONNECTED\<close> and a line end, the version query fails with the \<^verbatim>\<open>KeyError\<close> of the
  reply, line end included, which carries no description; after \<^verbatim>\<open>simulate_device(False)\<close>
  on a fresh object the same query returns \<open>Simulation\<close>; and the classification of the
  line without its line end returns the description as a value.
\<close>

theorem head_not_connected_counterexample:
  "fst (get_version (device_session (answering (''?HEAD NOT CONNECTED'' @ CRLF))))
     = Inl (KeyError (''?HEAD NOT CONNECTED'' @ CRLF))
   \<and> fst (get_version (simulate_device (init ''COM1'' 9600) (PyBool False)))
     = Inr ''Simulation''
   \<and> extract_received_data ''?HEAD NOT CONNECTED'' = Inr ''head is not connected to device''"
proof -
  have a: "fst (get_version (device_session (answering (''?HEAD NOT CONNECTED'' @ CRLF))))
     = Inl (KeyError (''?HEAD NOT CONNECTED'' @ CRLF))"
    by (simp add: get_version_def device_session_guard
        send_receive_data_Some [OF device_session_connection] scripted_port_def
        answering_def extract_received_data_def RESULT_CHAR_def ERROR_CHAR_def
        ERROR_MESSAGES_def)
  have b: "fst (get_version (simulate_device (init ''COM1'' 9600) (PyBool False)))
     = Inr ''Simulation''"
    by (simp add: get_version_def self_simulate_device_def simulate_device_def init_def)
  have c: "extract_received_data ''?HEAD NOT CONNECTED''
     = Inr ''head is not connected to device''"
    by (simp add: extract_received_data_def RESULT_CHAR_def ERROR_CHAR_def ERROR_MESSAGES_def)
  show ?thesis by (intro conjI a b c)
qed

section \<open>One exchange with the instrument\<close>

text \<open>
  C5, as the code has it. When the instrument's answer begins with the result marker,
  the exchange returns the answer without the marker and with every carriage return and
  line feed pair taken out, not only the one at the end. For a payload that has no such pair in
  it, sent as marker, payload, line end, the exchange returns the payload itself.
\<close>

theorem send_receive_data_result_reply:
  assumes "connection self = Some c" and "in_buffer c = []"
    and "reply c (build_command_string cmd) = RESULT_CHAR # rest"
  shows "fst (send_receive_data self cmd) = Inr (py_replace CRLF [] rest)
   \<and> (rest = payload @ CRLF \<and> \<not> has_crlf payload
        \<longrightarrow> fst (send_receive_data self cmd) = Inr payload)"
  using assms
  by (auto simp: send_receive_data_Some extract_received_data_def py_replace_no_crlf)

theorem send_receive_data_result_reply_witness:
  "connection (device_session (answering (''*1.23E+01'' @ CRLF)))
     = Some (scripted_port (answering (''*1.23E+01'' @ CRLF)))
   \<and> in_buffer (scripted_port (answering (''*1.23E+01'' @ CRLF))) = []
   \<and> reply (scripted_port (answering (''*1.23E+01'' @ CRLF))) (build_command_string GET_POWER)
     = RESULT_CHAR # ''1.23E+01'' @ CRLF
   \<and> \<not> has_crlf ''1.23E+01''
   \<and> fst (send_receive_data (device_session (answering (''*1.23E+01'' @ CRLF))) GET_POWER)
     = Inr ''1.23E+01''"
proof -
  let ?p = "scripted_port (answering (''*1.23E+01'' @ CRLF))"
  have h1: "connection (device_session (answering (''*1.23E+01'' @ CRLF))) = Some ?p"
    by (rule device_session_connection)
  have h2: "in_buffer ?p = []" by (simp add: scripted_port_def answering_def)
  have h3: "reply ?p (build_command_string GET_POWER) = RESULT_CHAR # ''1.23E+01'' @ CRLF"
    by (simp add: scripted_port_def answering_def RESULT_CHAR_def)
  have h4: "\<not> has_crlf ''1.23E+01''" by simp
  show ?thesis
    using h1 h2 h3 h4 send_receive_data_result_reply [OF h1 h2 h3, of "''1.23E+01''"]
    by simp
qed

text \<open>
  C5 as stated fails for a payload with a line end inside: the payload \<open>a\<close>, carriage
  return, line feed, \<open>b\<close>, sent with the marker before it and a line end after it, comes
  back as \<open>ab\<close>.
\<close>

theorem roundtrip_embedded_crlf_counterexample:
  "fst (send_receive_data
          (device_session (answering (''*a'' @ CRLF @ ''b'' @ CRLF))) GET_VERSION)
     = Inr ''ab''
   \<and> fst (send_receive_data
          (device_session (answering (''*a'' @ CRLF @ ''b'' @ CRLF))) GET_VERSION)
     \<noteq> Inr (''a'' @ CRLF @ ''b'')"
  by (simp add: send_receive_data_Some [OF device_session_connection] scripted_port_def
      answering_def extract_received_data_def RESULT_CHAR_def)

section \<open>The aggregate query\<close>

text \<open>
  C8. With the guard true, \<^verbatim>\<open>get_infos\<close> returns the four entries, each \<open>Simulation\<close>, the
  unit being the table's entry for \<open>Simulation\<close>. Whenever \<^verbatim>\<open>get_infos\<close> returns a dictionary
  at all, the dictionary has exactly the four keys and its unit is an entry of the unit
  table. On a driver that talks to an instrument answering each of the four queries with a
  result line, the frames written are those of the version, head, instrument and unit
  queries in this order, and the call either fails with the \<^verbatim>\<open>KeyError\<close> of the unit code,
  when the code is no key of the unit table, or returns the four entries with the unit
  resolved through the table.
\<close>

theorem get_infos_aggregate:
  "(truthy (self_simulate_device self) \<longrightarrow>
      get_infos self =
        (Inr [''ROM Version'' \<mapsto> ''Simulation'', ''Head Info'' \<mapsto> ''Simulation'',
              ''Instrument Info'' \<mapsto> ''Simulation'', ''Unit'' \<mapsto> ''Simulation''], self))
   \<and> (get_infos self = (Inr d, self') \<longrightarrow>
        dom d = {''ROM Version'', ''Head Info'', ''Instrument Info'', ''Unit''}
        \<and> d ''Unit'' \<in> Some ` ran UNIT_SETUP)
   \<and> (\<not> truthy (self_simulate_device dev) \<and> connection dev = Some c \<and> in_buffer c = []
        \<and> RESULT_CHAR \<in> set (reply c (build_command_string GET_VERSION))
        \<and> RESULT_CHAR \<in> set (reply c (build_command_string GET_HEAD_INFO))
        \<and> RESULT_CHAR \<in> set (reply c (build_command_string GET_INSTRUMENT_INFO))
        \<and> RESULT_CHAR \<in> set (reply c (build_command_string GET_UNIT))
      \<longrightarrow>
        get_infos dev =
          (case UNIT_SETUP (py_replace CRLF [] (drop 1 (reply c (build_command_string GET_UNIT)))) of
             None \<Rightarrow> Inl (KeyError (py_replace CRLF [] (drop 1 (reply c (build_command_string GET_UNIT)))))
           | Some unit_name \<Rightarrow>
               Inr [''ROM Version'' \<mapsto> py_replace CRLF [] (drop 1 (reply c (build_command_string GET_VERSION))),
                    ''Head Info'' \<mapsto> py_replace CRLF [] (drop 1 (reply c (build_command_string GET_HEAD_INFO))),
                    ''Instrument Info'' \<mapsto> py_replace CRLF [] (drop 1 (reply c (build_command_string GET_INSTRUMENT_INFO))),
                    ''Unit'' \<mapsto> unit_name],
           dev\<lparr>connection := Some (c\<lparr>written := written c @
                  [build_command_string GET_VERSION, build_command_string GET_HEAD_INFO,
                   build_command_string GET_INSTRUMENT_INFO, build_command_string GET_UNIT],
                in_buffer := []\<rparr>)\<rparr>))"
proof (intro conjI impI)
  assume "truthy (self_simulate_device self)"
  then show "get_infos self =
        (Inr [''ROM Version'' \<mapsto> ''Simulation'', ''Head Info'' \<mapsto> ''Simulation'',
              ''Instrument Info'' \<mapsto> ''Simulation'', ''Unit'' \<mapsto> ''Simulation''], self)"
    by (simp add: get_infos_def get_version_def get_head_info_def get_instrument_info_def
        get_unit_def UNIT_SETUP_def)
next
  assume a: "get_infos self = (Inr d, self')"
  then obtain v h i u n where d: "d = [''ROM Version'' \<mapsto> v, ''Head Info'' \<mapsto> h,
              ''Instrument Info'' \<mapsto> i, ''Unit'' \<mapsto> n]" and n: "UNIT_SETUP u = Some n"
    by (auto simp: get_infos_def split: prod.splits sum.splits option.splits)
  show "dom d = {''ROM Version'', ''Head Info'', ''Instrument Info'', ''Unit''}"
    unfolding d by auto
  show "d ''Unit'' \<in> Some ` ran UNIT_SETUP"
    using n unfolding d by (auto simp: ran_def)
next
  assume h: "\<not> truthy (self_simulate_device dev) \<and> connection dev = Some c \<and> in_buffer c = []
        \<and> RESULT_CHAR \<in> set (reply c (build_command_string GET_VERSION))
        \<and> RESULT_CHAR \<in> set (reply c (build_command_string GET_HEAD_INFO))
        \<and> RESULT_CHAR \<in> set (reply c (build_command_string GET_INSTRUMENT_INFO))
        \<and> RESULT_CHAR \<in> set (reply c (build_command_string GET_UNIT))"
  let ?f = "\<lambda>cmd. build_command_string cmd"
  let ?r = "\<lambda>cmd. py_replace CRLF [] (drop 1 (reply c (build_command_string cmd)))"
  let ?c1 = "c\<lparr>written := written c @ [?f GET_VERSION], in_buffer := []\<rparr>"
  let ?c2 = "c\<lparr>written := written c @ [?f GET_VERSION, ?f GET_HEAD_INFO], in_buffer := []\<rparr>"
  let ?c3 = "c\<lparr>written := written c @ [?f GET_VERSION, ?f GET_HEAD_INFO,
      ?f GET_INSTRUMENT_INFO], in_buffer := []\<rparr>"
  let ?c4 = "c\<lparr>written := written c @ [?f GET_VERSION, ?f GET_HEAD_INFO,
      ?f GET_INSTRUMENT_INFO, ?f GET_UNIT], in_buffer := []\<rparr>"
  from h have g: "\<not> truthy (self_simulate_device dev)" by blast
  have q1: "get_version dev = (Inr (?r GET_VERSION), dev\<lparr>connection := Some ?c1\<rparr>)"
    using h by (simp add: get_version_def send_receive_data_result [where c = c])
  have q2: "get_head_info (dev\<lparr>connection := Some ?c1\<rparr>)
      = (Inr (?r GET_HEAD_INFO), dev\<lparr>connection := Some ?c2\<rparr>)"
    using h by (simp add: get_head_info_def send_receive_data_result [where c = ?c1])
  have q3: "get_instrument_info (dev\<lparr>connection := Some ?c2\<rparr>)
      = (Inr (?r GET_INSTRUMENT_INFO), dev\<lparr>connection := Some ?c3\<rparr>)"
    using h by (simp add: get_instrument_info_def send_receive_data_result [where c = ?c2])
  have q4: "get_unit (dev\<lparr>connection := Some ?c3\<rparr>)
      = (Inr (?r GET_UNIT), dev\<lparr>connection := Some ?c4\<rparr>)"
    using h by (simp add: get_unit_def send_receive_data_result [where c = ?c3])
  show "get_infos dev =
          (case UNIT_SETUP (?r GET_UNIT) of
             None \<Rightarrow> Inl (KeyError (?r GET_UNIT))
           | Some unit_name \<Rightarrow>
               Inr [''ROM Version'' \<mapsto> ?r GET_VERSION,
                    ''Head Info'' \<mapsto> ?r GET_HEAD_INFO,
                    ''Instrument Info'' \<mapsto> ?r GET_INSTRUMENT_INFO,
                    ''Unit'' \<mapsto> unit_name],
           dev\<lparr>connection := Some (c\<lparr>written := written c @
                  [build_command_string GET_VERSION, build_command_string GET_HEAD_INFO,
                   build_command_string GET_INSTRUMENT_INFO, build_command_string GET_UNIT],
                in_buffer := []\<rparr>)\<rparr>)"
    by (simp add: get_infos_def q1 q2 q3 q4 split: option.splits)
qed

text \<open>
  The three hypotheses at instances: a fresh object after \<^verbatim>\<open>simulate_device(True)\<close>, the
  dictionary it returns, and a driver whose instrument answers the unit query with the
  code \<open>Q\<close>, which the unit table does not have.
\<close>

theorem get_infos_aggregate_witness:
  "truthy (self_simulate_device (simulate_device (init ''COM1'' 9600) (PyBool True)))
   \<and> get_infos (simulate_device (init ''COM1'' 9600) (PyBool True))
       = (Inr [''ROM Version'' \<mapsto> ''Simulation'', ''Head Info'' \<mapsto> ''Simulation'',
               ''Instrument Info'' \<mapsto> ''Simulation'', ''Unit'' \<mapsto> ''Simulation''],
          simulate_device (init ''COM1'' 9600) (PyBool True))
   \<and> dom [''ROM Version'' \<mapsto> ''Simulation'', ''Head Info'' \<mapsto> ''Simulation'',
            ''Instrument Info'' \<mapsto> ''Simulation'', ''Unit'' \<mapsto> ''Simulation'']
       = {''ROM Version'', ''Head Info'', ''Instrument Info'', ''Unit''}
   \<and> \<not> truthy (self_simulate_device (device_session (instrument ''Q'')))
   \<and> connection (device_session (instrument ''Q'')) = Some (scripted_port (instrument ''Q''))
   \<and> in_buffer (scripted_port (instrument ''Q'')) = []
   \<and> get_infos (device_session (instrument ''Q''))
       = (Inl (KeyError ''Q''),
          (device_session (instrument ''Q''))
            \<lparr>connection := Some ((scripted_port (instrument ''Q''))
               \<lparr>written := [''$VE'' @ CRLF, ''$HI'' @ CRLF, ''$II'' @ CRLF, ''$SI'' @ CRLF],
                 in_buffer := []\<rparr>)\<rparr>)"
proof -
  let ?S = "simulate_device (init ''COM1'' 9600) (PyBool True)"
  let ?d = "[''ROM Version'' \<mapsto> ''Simulation'', ''Head Info'' \<mapsto> ''Simulation'',
             ''Instrument Info'' \<mapsto> ''Simulation'', ''Unit'' \<mapsto> ''Simulation'']"
  let ?D = "device_session (instrument ''Q'')"
  let ?P = "scripted_port (instrument ''Q'')"
  have h1: "truthy (self_simulate_device ?S)"
    by (simp add: self_simulate_device_def simulate_device_def init_def)
  have h2: "\<not> truthy (self_simulate_device ?D)" by (rule device_session_guard)
  have h3: "connection ?D = Some ?P" by (rule device_session_connection)
  have h4: "in_buffer ?P = []" by (simp add: scripted_port_def)
  have h5: "RESULT_CHAR \<in> set (reply ?P frame)" for frame
    by (simp add: scripted_port_def instrument_def)
  have r: "reply ?P = instrument ''Q''" by (simp add: scripted_port_def)
  have w: "written ?P = []" by (simp add: scripted_port_def)
  note t = get_infos_aggregate [of ?S ?d ?S ?D ?P]
  have a: "get_infos ?S = (Inr ?d, ?S)"
    by (rule t [THEN conjunct1, THEN mp, OF h1])
  have b: "dom ?d = {''ROM Version'', ''Head Info'', ''Instrument Info'', ''Unit''}"
    by (rule t [THEN conjunct2, THEN conjunct1, THEN mp, OF a, THEN conjunct1])
  have c: "get_infos ?D =
          (case UNIT_SETUP (py_replace CRLF [] (drop 1 (reply ?P (build_command_string GET_UNIT)))) of
             None \<Rightarrow> Inl (KeyError (py_replace CRLF [] (drop 1 (reply ?P (build_command_string GET_UNIT)))))
           | Some unit_name \<Rightarrow>
               Inr [''ROM Version'' \<mapsto> py_replace CRLF [] (drop 1 (reply ?P (build_command_string GET_VERSION))),
                    ''Head Info'' \<mapsto> py_replace CRLF [] (drop 1 (reply ?P (build_command_string GET_HEAD_INFO))),
                    ''Instrument Info'' \<mapsto> py_replace CRLF [] (drop 1 (reply ?P (build_command_string GET_INSTRUMENT_INFO))),
                    ''Unit'' \<mapsto> unit_name],
           ?D\<lparr>connection := Some (?P\<lparr>written := written ?P @
                  [build_command_string GET_VERSION, build_command_string GET_HEAD_INFO,
                   build_command_string GET_INSTRUMENT_INFO, build_command_string GET_UNIT],
                in_buffer := []\<rparr>)\<rparr>)"
    by (rule t [THEN conjunct2, THEN conjunct2, THEN mp]) (intro conjI h2 h3 h4 h5)
  have u: "py_replace CRLF [] (drop 1 (reply ?P (build_command_string GET_UNIT))) = ''Q''"
    by (simp add: r instrument_def)
  have k: "UNIT_SETUP ''Q'' = None" by (simp add: UNIT_SETUP_def)
  have f: "[build_command_string GET_VERSION, build_command_string GET_HEAD_INFO,
            build_command_string GET_INSTRUMENT_INFO, build_command_string GET_UNIT]
           = [''$VE'' @ CRLF, ''$HI'' @ CRLF, ''$II'' @ CRLF, ''$SI'' @ CRLF]"
    by (simp add: build_command_string_def COMMAND_CHAR_def NovaCommands_defs)
  have e: "get_infos ?D = (Inl (KeyError ''Q''),
          ?D\<lparr>connection := Some (?P
               \<lparr>written := [''$VE'' @ CRLF, ''$HI'' @ CRLF, ''$II'' @ CRLF, ''$SI'' @ CRLF],
                 in_buffer := []\<rparr>)\<rparr>)"
    using c unfolding u k f w by simp
  show ?thesis by (intro conjI h1 a b h2 h3 h4 e)
qed

end
